theory Spec2Isabelle
  imports Main
begin

section \<open>The response envelope\<close>

text \<open>
  Every handler of \<^verbatim>\<open>AuthHandler\<close> answers HTTP 200 with a value of
  \<^verbatim>\<open>utils.Result\<close>. The three codes are the constants \<^verbatim>\<open>utils.Success\<close>,
  \<^verbatim>\<open>utils.RequestError\<close> and \<^verbatim>\<open>utils.ServerError\<close>; their numeric values are
  not under src/ and play no role below.
\<close>

datatype Code = Success | RequestError | ServerError

record Token =
  Token_Token :: string
  Token_UserId :: nat
  Token_Username :: string
  Token_UserImg :: string

datatype Data = nil | TokenData Token

record Result =
  Code :: Code
  Msg :: string
  Data :: Data

text \<open>
  Go strings are byte sequences. The message literals of the handlers are Chinese text;
  each constant below is the UTF-8 encoding of the literal at the quoted line of
  src/unnamed/part_000.
\<close>

definition msg_register_ok :: string where \<comment> \<open>line 63\<close>
  "msg_register_ok = [CHR 0xE6, CHR 0xB3, CHR 0xA8, CHR 0xE5, CHR 0x86, CHR 0x8C,
     CHR 0xE6, CHR 0x88, CHR 0x90, CHR 0xE5, CHR 0x8A, CHR 0x9F]"

definition msg_user_registered :: string where \<comment> \<open>line 76\<close>
  "msg_user_registered = [CHR 0xE8, CHR 0xAF, CHR 0xA5, CHR 0xE7, CHR 0x94, CHR 0xA8,
     CHR 0xE6, CHR 0x88, CHR 0xB7, CHR 0xE5, CHR 0xB7, CHR 0xB2, CHR 0xE8, CHR 0xA2, CHR 0xAB,
     CHR 0xE6, CHR 0xB3, CHR 0xA8, CHR 0xE5, CHR 0x86, CHR 0x8C]"

definition msg_server_error :: string where \<comment> \<open>lines 83, 91, 115, 180, 318\<close>
  "msg_server_error = [CHR 0xE6, CHR 0x9C, CHR 0x8D, CHR 0xE5, CHR 0x8A, CHR 0xA1,
     CHR 0xE5, CHR 0x99, CHR 0xA8, CHR 0xE7, CHR 0xAB, CHR 0xAF, CHR 0xE9, CHR 0x94, CHR 0x99,
     CHR 0xE8, CHR 0xAF, CHR 0xAF]"

definition site_setting_name :: string where \<comment> \<open>lines 87, 98\<close>
  "site_setting_name = [CHR 0xE7, CHR 0xBD, CHR 0x91, CHR 0xE7, CHR 0xAB, CHR 0x99,
     CHR 0xE8, CHR 0xAE, CHR 0xBE, CHR 0xE7, CHR 0xBD, CHR 0xAE]"

definition msg_login_ok :: string where \<comment> \<open>line 134\<close>
  "msg_login_ok = [CHR 0xE7, CHR 0x99, CHR 0xBB, CHR 0xE5, CHR 0xBD, CHR 0x95,
     CHR 0xE6, CHR 0x88, CHR 0x90, CHR 0xE5, CHR 0x8A, CHR 0x9F]"

definition msg_captcha_error :: string where \<comment> \<open>line 149\<close>
  "msg_captcha_error = [CHR 0xE9, CHR 0xAA, CHR 0x8C, CHR 0xE8, CHR 0xAF, CHR 0x81,
     CHR 0xE7, CHR 0xA0, CHR 0x81, CHR 0xE9, CHR 0x94, CHR 0x99, CHR 0xE8, CHR 0xAF, CHR 0xAF]"

definition msg_no_such_user :: string where \<comment> \<open>line 157\<close>
  "msg_no_such_user = [CHR 0xE4, CHR 0xB8, CHR 0x8D, CHR 0xE5, CHR 0xAD, CHR 0x98,
     CHR 0xE5, CHR 0x9C, CHR 0xA8, CHR 0xE8, CHR 0xAF, CHR 0xA5, CHR 0xE7, CHR 0x94, CHR 0xA8,
     CHR 0xE6, CHR 0x88, CHR 0xB7]"

definition msg_pwd_error :: string where \<comment> \<open>line 163\<close>
  "msg_pwd_error = [CHR 0xE5, CHR 0xAF, CHR 0x86, CHR 0xE7, CHR 0xA0, CHR 0x81,
     CHR 0xE9, CHR 0x94, CHR 0x99, CHR 0xE8, CHR 0xAF, CHR 0xAF]"

definition msg_no_such_email :: string where \<comment> \<open>line 243\<close>
  "msg_no_such_email = [CHR 0xE4, CHR 0xB8, CHR 0x8D, CHR 0xE5, CHR 0xAD, CHR 0x98,
     CHR 0xE5, CHR 0x9C, CHR 0xA8, CHR 0xE8, CHR 0xAF, CHR 0xA5, CHR 0xE9, CHR 0x82, CHR 0xAE,
     CHR 0xE7, CHR 0xAE, CHR 0xB1, CHR 0xE5, CHR 0xB8, CHR 0x90, CHR 0xE5, CHR 0x8F, CHR 0xB7]"

definition subject_forget_pwd :: string where \<comment> \<open>line 260\<close>
  "subject_forget_pwd = [CHR 0xE5, CHR 0xBF, CHR 0x98, CHR 0xE8, CHR 0xAE, CHR 0xB0,
     CHR 0xE5, CHR 0xAF, CHR 0x86, CHR 0xE7, CHR 0xA0, CHR 0x81, CHR 0xE9, CHR 0xAA, CHR 0x8C,
     CHR 0xE8, CHR 0xAF, CHR 0x81]"

definition msg_send_failed :: string where \<comment> \<open>line 272\<close>
  "msg_send_failed = [CHR 0xE9, CHR 0xAA, CHR 0x8C, CHR 0xE8, CHR 0xAF, CHR 0x81,
     CHR 0xE7, CHR 0xA0, CHR 0x81, CHR 0xE5, CHR 0x8F, CHR 0x91, CHR 0xE9, CHR 0x80, CHR 0x81,
     CHR 0xE5, CHR 0xA4, CHR 0xB1, CHR 0xE8, CHR 0xB4, CHR 0xA5, CHR 0xEF, CHR 0xBC, CHR 0x8C,
     CHR 0xE8, CHR 0xAF, CHR 0xB7, CHR 0xE6, CHR 0xA3, CHR 0x80, CHR 0xE6, CHR 0x9F, CHR 0xA5,
     CHR 0x20, CHR 0x73, CHR 0x6D, CHR 0x74, CHR 0x70, CHR 0x20, CHR 0xE9, CHR 0x85, CHR 0x8D,
     CHR 0xE7, CHR 0xBD, CHR 0xAE]"

definition msg_send_ok :: string where \<comment> \<open>line 279\<close>
  "msg_send_ok = [CHR 0xE9, CHR 0xAA, CHR 0x8C, CHR 0xE8, CHR 0xAF, CHR 0x81,
     CHR 0xE7, CHR 0xA0, CHR 0x81, CHR 0xE5, CHR 0x8F, CHR 0x91, CHR 0xE9, CHR 0x80, CHR 0x81,
     CHR 0xE6, CHR 0x88, CHR 0x90, CHR 0xE5, CHR 0x8A, CHR 0x9F, CHR 0xEF, CHR 0xBC, CHR 0x8C,
     CHR 0xE8, CHR 0xAF, CHR 0xB7, CHR 0xE5, CHR 0x89, CHR 0x8D, CHR 0xE5, CHR 0xBE, CHR 0x80,
     CHR 0xE9, CHR 0x82, CHR 0xAE, CHR 0xE7, CHR 0xAE, CHR 0xB1, CHR 0xE6, CHR 0x9F, CHR 0xA5,
     CHR 0xE7, CHR 0x9C, CHR 0x8B]"

definition msg_code_invalid :: string where \<comment> \<open>line 307\<close>
  "msg_code_invalid = [CHR 0xE9, CHR 0xAA, CHR 0x8C, CHR 0xE8, CHR 0xAF, CHR 0x81,
     CHR 0xE7, CHR 0xA0, CHR 0x81, CHR 0xE6, CHR 0x97, CHR 0xA0, CHR 0xE6, CHR 0x95, CHR 0x88,
     CHR 0xE6, CHR 0x88, CHR 0x96, CHR 0xE9, CHR 0x94, CHR 0x99, CHR 0xE8, CHR 0xAF, CHR 0xAF]"

definition msg_reset_ok :: string where \<comment> \<open>line 325\<close>
  "msg_reset_ok = [CHR 0xE9, CHR 0x87, CHR 0x8D, CHR 0xE7, CHR 0xBD, CHR 0xAE,
     CHR 0xE5, CHR 0xAF, CHR 0x86, CHR 0xE7, CHR 0xA0, CHR 0x81, CHR 0xE6, CHR 0x88, CHR 0x90,
     CHR 0xE5, CHR 0x8A, CHR 0x9F]"

section \<open>Entities\<close>

text \<open>
  \<^verbatim>\<open>gorm.Model\<close> is the struct that \<^verbatim>\<open>Link\<close> embeds (src/model/link.go, line 12):
  primary key, two timestamps and the nullable deletion marker. Go's struct embedding is
  rendered as record extension. Instants are nanoseconds since the epoch, durations are
  nanoseconds, as in Go's package time.
\<close>

record Model =
  ID :: nat
  CreatedAt :: nat
  UpdatedAt :: nat
  DeletedAt :: "nat option"

text \<open>
  The columns of \<^verbatim>\<open>Link\<close>. The field \<^verbatim>\<open>Category\<close> is an association that
  \<^verbatim>\<open>Preload\<close> fills from another table; it is not a column and is left out.
\<close>

record Link = Model +
  CategoryId :: "nat option"
  Link_Name :: string
  Url :: string
  Desc :: string
  Icon :: string

text \<open>
  \<^verbatim>\<open>models.User\<close>, \<^verbatim>\<open>models.SysSetting\<close> and \<^verbatim>\<open>models.SysSettingItem\<close> are
  declared outside src/. The fields are the ones the handlers read or write:
  \<^verbatim>\<open>u.ID\<close>, \<^verbatim>\<open>u.Username\<close>, \<^verbatim>\<open>u.Pwd\<close>, \<^verbatim>\<open>u.UserImg\<close>, \<^verbatim>\<open>User{Email: ...}\<close>,
  \<^verbatim>\<open>SysSetting{Name: ...}\<close>, \<^verbatim>\<open>sysSetting.ID\<close>, \<^verbatim>\<open>SysSettingItem{SysId, Key, Val}\<close>.
  The field \<^verbatim>\<open>ID\<close> of a user and of a settings group is taken to come from the embedded
  \<^verbatim>\<open>gorm.Model\<close>, as it does for \<^verbatim>\<open>Link\<close> and, in src/form/category_form.go, for
  \<^verbatim>\<open>Category\<close>.
\<close>

record User = Model +
  Username :: string
  Pwd :: string
  Email :: string
  UserImg :: string

record SysSetting = Model +
  SysSetting_Name :: string

record SysSettingItem =
  SysId :: nat
  Key :: string
  Val :: string

definition zero_User :: User where
  "zero_User = \<lparr>ID = 0, CreatedAt = 0, UpdatedAt = 0, DeletedAt = None,
     Username = [], Pwd = [], Email = [], UserImg = []\<rparr>"

definition zero_Link :: Link where
  "zero_Link = \<lparr>ID = 0, CreatedAt = 0, UpdatedAt = 0, DeletedAt = None,
     CategoryId = None, Link_Name = [], Url = [], Desc = [], Icon = []\<rparr>"

section \<open>Forms\<close>

text \<open>
  The forms of package forms are declared outside src/; the fields are those the
  handlers and the \<^verbatim>\<open>BindToModel\<close> calls use. A handler receives the outcome of
  \<^verbatim>\<open>ctx.ShouldBindJSON\<close>: \<open>Inl m\<close> when binding or validation failed, \<open>m\<close> being
  what \<^verbatim>\<open>utils.GetFormError(err)\<close> returns, and \<open>Inr form\<close> when the form was bound.
\<close>

record RegisterForm =
  reg_Username :: string
  reg_Pwd :: string
  reg_Email :: string
  SiteName :: string
  SiteUrl :: string

record LoginForm =
  login_Username :: string
  login_Pwd :: string
  CaptchaId :: string
  CaptchaVal :: string

record ForgetPwdForm =
  forget_Email :: string

record ResetPwdForm =
  reset_Email :: string
  VerifyCode :: string
  reset_Pwd :: string

text \<open>
  Modelled from the spec: the three \<^verbatim>\<open>BindToModel\<close> methods of package forms are missing
  from src/. Each "binds the form data to the user entity": the fields of the form are copied, the
  other fields keep Go's zero value.
\<close>

definition RegisterForm_BindToModel :: "RegisterForm \<Rightarrow> User" where
  "RegisterForm_BindToModel f =
     zero_User\<lparr>Username := reg_Username f, Pwd := reg_Pwd f, Email := reg_Email f\<rparr>"

definition LoginForm_BindToModel :: "LoginForm \<Rightarrow> User" where
  "LoginForm_BindToModel f = zero_User\<lparr>Username := login_Username f, Pwd := login_Pwd f\<rparr>"

definition ResetPwdForm_BindToModel :: "ResetPwdForm \<Rightarrow> User" where
  "ResetPwdForm_BindToModel f = zero_User\<lparr>Email := reset_Email f, Pwd := reset_Pwd f\<rparr>"

section \<open>Collaborators: configuration, helpers, environment, stores\<close>

record CaptchaConfig =
  Id :: string
  VerifyValue :: string

record CustomClaims =
  Claims_Username :: string
  Claims_UserImg :: string
  ExpiresAt :: int
  IssuedAt :: int

record Message =
  To :: string
  From :: "string \<times> string"
  Subject :: string
  Body :: string

text \<open>
  The pure helpers of package utils and the process-wide configuration
  \<^verbatim>\<open>setting.Config\<close> are outside src/; they are parameters of the model, so every
  theorem below holds for each implementation of them.
  \<^item> \<open>EncryptPwd\<close>: the password hash applied before a password is stored;
  \<^item> \<open>VerifyPwd hash pwd\<close>: \<^verbatim>\<open>utils.VerifyPwd(u.Pwd, user.Pwd)\<close>;
  \<^item> \<open>CaptchaMatch answer value\<close>: the comparison \<^verbatim>\<open>utils.CaptchaVerify\<close> applies;
  \<^item> \<open>SignToken\<close>: the token \<^verbatim>\<open>NewJWT().CreateToken\<close> signs for the claims;
  \<^item> \<open>GetForgetPwdEmailHTML username code\<close>: the HTML body of the mail;
  \<^item> \<open>SqlIdEq n s\<close>: the database's comparison of an integer id column with the string
    bound to \<^verbatim>\<open>`id` = ?\<close>;
  \<^item> \<open>SMTP_Account\<close>, \<open>TokenExpireTime\<close>: the two configuration values the model reads.
\<close>

record Lib =
  EncryptPwd :: "string \<Rightarrow> string"
  VerifyPwd :: "string \<Rightarrow> string \<Rightarrow> bool"
  CaptchaMatch :: "string \<Rightarrow> string \<Rightarrow> bool"
  SignToken :: "CustomClaims \<Rightarrow> string"
  GetForgetPwdEmailHTML :: "string \<Rightarrow> string \<Rightarrow> string"
  SqlIdEq :: "nat \<Rightarrow> string \<Rightarrow> bool"
  SMTP_Account :: string
  TokenExpireTime :: int

text \<open>
  What the surroundings decide during one call of a handler: the clock, which of the
  fallible external operations fail, and the characters the random generator draws.
\<close>

datatype Op =
  OpGetByUsername | OpGetByEmail | OpUserCreate | OpUpdatePwd
  | OpSysSettingCreate | OpMultiCreateOrUpdate | OpCreateToken | OpDialAndSend
  | OpLinkQuery | OpLinkDelete

record Env =
  now :: nat
  fails :: "Op \<Rightarrow> bool"
  rand :: "nat \<Rightarrow> char"

datatype error =
  ErrRecordNotFound | ErrDb | ErrCacheMiss | ErrToken | ErrSmtp

text \<open>
  The state the handlers share: the tables behind \<^verbatim>\<open>db.Db\<close>, the key-value cache
  \<^verbatim>\<open>setting.Cache\<close> (value and instant of expiry per key), the captcha store, and the
  messages handed to the SMTP dialer, each with whether it was delivered.
\<close>

record World =
  users :: "User list"
  sys_settings :: "SysSetting list"
  sys_setting_items :: "SysSettingItem list"
  links :: "Link list"
  cache :: "string \<rightharpoonup> string \<times> nat"
  captchas :: "string \<rightharpoonup> string"
  outbox :: "(Message \<times> bool) list"

definition Second :: nat where
  "Second = 1000000000"

definition Minute :: nat where
  "Minute = 60 * Second"

section \<open>The persistence layer\<close>

text \<open>
  Modelled from the spec: the methods of \<^verbatim>\<open>models.User\<close>, \<^verbatim>\<open>models.SysSetting\<close> and
  \<^verbatim>\<open>models.SysSettingItem\<close> are missing from src/. The spec describes them as direct
  query and update calls on relational tables: "look up user by username", "look up user
  by email", "create user record with hashed password", "create a default site settings
  group", "batch-upsert its initial key/value items" keyed by (group id, key), and "bind
  new (to-be-hashed) password to the user record identified by email, persist update".
  They follow the pattern of src/model/link.go: a query returns the first matching row
  that carries no deletion marker, and Go's zero value together with an error when there
  is none or when the query itself fails; a write that fails leaves the table as it was.
  String columns are compared by equality.
\<close>

definition GetByUsername :: "Env \<Rightarrow> World \<Rightarrow> User \<Rightarrow> User \<times> error option" where
  "GetByUsername env w user =
     (if fails env OpGetByUsername then (zero_User, Some ErrDb)
      else case find (\<lambda>u. DeletedAt u = None \<and> Username u = Username user) (users w) of
             None \<Rightarrow> (zero_User, Some ErrRecordNotFound)
           | Some u \<Rightarrow> (u, None))"

definition GetByEmail :: "Env \<Rightarrow> World \<Rightarrow> User \<Rightarrow> User \<times> error option" where
  "GetByEmail env w user =
     (if fails env OpGetByEmail then (zero_User, Some ErrDb)
      else case find (\<lambda>u. DeletedAt u = None \<and> Email u = Email user) (users w) of
             None \<Rightarrow> (zero_User, Some ErrRecordNotFound)
           | Some u \<Rightarrow> (u, None))"

definition next_ID :: "nat list \<Rightarrow> nat" where
  "next_ID ids = Suc (fold max ids 0)"

definition User_Create :: "Lib \<Rightarrow> Env \<Rightarrow> World \<Rightarrow> User \<Rightarrow> error option \<times> World" where
  "User_Create lib env w user =
     (if fails env OpUserCreate then (Some ErrDb, w)
      else (None, w\<lparr>users := users w @
              [user\<lparr>ID := next_ID (map ID (users w)), CreatedAt := now env,
                    UpdatedAt := now env, Pwd := EncryptPwd lib (Pwd user)\<rparr>]\<rparr>))"

definition UpdatePwd :: "Lib \<Rightarrow> Env \<Rightarrow> World \<Rightarrow> User \<Rightarrow> error option \<times> World" where
  "UpdatePwd lib env w user =
     (if fails env OpUpdatePwd then (Some ErrDb, w)
      else (None, w\<lparr>users := map (\<lambda>u. if DeletedAt u = None \<and> Email u = Email user
                                         then u\<lparr>Pwd := EncryptPwd lib (Pwd user),
                                                UpdatedAt := now env\<rparr>
                                         else u) (users w)\<rparr>))"

definition SysSetting_Create ::
    "Env \<Rightarrow> World \<Rightarrow> SysSetting \<Rightarrow> error option \<times> World \<times> SysSetting" where
  "SysSetting_Create env w sysSetting =
     (if fails env OpSysSettingCreate then (Some ErrDb, w, sysSetting)
      else let created = sysSetting\<lparr>ID := next_ID (map ID (sys_settings w)),
                                    CreatedAt := now env, UpdatedAt := now env\<rparr>
           in (None, w\<lparr>sys_settings := sys_settings w @ [created]\<rparr>, created))"

fun upsert_item :: "nat \<Rightarrow> SysSettingItem \<Rightarrow> SysSettingItem list \<Rightarrow> SysSettingItem list" where
  "upsert_item sysId item [] = [item\<lparr>SysId := sysId\<rparr>]"
| "upsert_item sysId item (x # xs) =
     (if SysId x = sysId \<and> Key x = Key item then x\<lparr>Val := Val item\<rparr> # xs
      else x # upsert_item sysId item xs)"

definition MultiCreateOrUpdate ::
    "Env \<Rightarrow> World \<Rightarrow> nat \<Rightarrow> SysSettingItem list \<Rightarrow> error option \<times> World" where
  "MultiCreateOrUpdate env w sysId itemList =
     (if fails env OpMultiCreateOrUpdate then (Some ErrDb, w)
      else (None, w\<lparr>sys_setting_items :=
                      foldl (\<lambda>items item. upsert_item sysId item items)
                        (sys_setting_items w) itemList\<rparr>))"

section \<open>Cache, captcha store, random codes, token, mail\<close>

text \<open>
  Modelled from the spec: \<^verbatim>\<open>setting.Cache\<close> is outside src/. The spec treats it as "an
  external collaborator providing get/set-with-TTL semantics", a "key-value store where
  entries expire automatically after a configured duration". \<open>Cache_Get\<close> writes the
  stored value through the pointer it is given when the key holds an entry that has not
  expired, and otherwise leaves the variable as it was and returns an error;
  \<open>Cache_Set\<close> stores the value with the instant at which it expires, replacing
  what the key held.
\<close>

definition Cache_Get :: "Env \<Rightarrow> World \<Rightarrow> string \<Rightarrow> string \<Rightarrow> string \<times> error option" where
  "Cache_Get env w k var =
     (case cache w k of
        None \<Rightarrow> (var, Some ErrCacheMiss)
      | Some (v, expiry) \<Rightarrow> if now env < expiry then (v, None) else (var, Some ErrCacheMiss))"

definition Cache_Set :: "Env \<Rightarrow> World \<Rightarrow> string \<Rightarrow> string \<Rightarrow> nat \<Rightarrow> error option \<times> World" where
  "Cache_Set env w k v ttl = (None, w\<lparr>cache := (cache w)(k \<mapsto> (v, now env + ttl))\<rparr>)"

text \<open>
  Modelled from the spec: \<^verbatim>\<open>utils.CaptchaVerify\<close> is missing from src/. A challenge is
  "opaque id -> expected answer", verification matches the submitted text against the
  stored answer and the challenge is "always consumed (one-shot) regardless of outcome".
  A challenge whose time has run out is one that is no longer in the store.
\<close>

definition CaptchaVerify :: "Lib \<Rightarrow> World \<Rightarrow> CaptchaConfig \<Rightarrow> bool \<times> World" where
  "CaptchaVerify lib w config =
     ((case captchas w (Id config) of
         None \<Rightarrow> False
       | Some answer \<Rightarrow> CaptchaMatch lib answer (VerifyValue config)),
      w\<lparr>captchas := (captchas w)(Id config := None)\<rparr>)"

text \<open>
  Modelled from the spec: \<^verbatim>\<open>utils.CreateRandomCode\<close> is missing from src/. It yields a
  "random code" of the requested number of characters; the characters are the ones the
  random generator draws during the call.
\<close>

definition CreateRandomCode :: "Env \<Rightarrow> nat \<Rightarrow> string" where
  "CreateRandomCode env n = map (rand env) [0..<n]"

text \<open>
  Modelled from the spec: \<^verbatim>\<open>utils.NewJWT().CreateToken\<close> is missing from src/, and
  \<^verbatim>\<open>DialAndSend\<close> belongs to the mail library. The token issuer "creates and signs a
  bearer token" for the claims, the mailer "sends a templated HTML email over SMTP"; each
  returns an error when signing, respectively delivery, fails. The outbox records every
  message that reaches \<open>DialAndSend\<close>, delivered or not.
\<close>

definition CreateToken :: "Lib \<Rightarrow> Env \<Rightarrow> CustomClaims \<Rightarrow> string \<times> error option" where
  "CreateToken lib env claims =
     (if fails env OpCreateToken then ([], Some ErrToken) else (SignToken lib claims, None))"

definition DialAndSend :: "Env \<Rightarrow> World \<Rightarrow> Message \<Rightarrow> error option \<times> World" where
  "DialAndSend env w msg =
     (if fails env OpDialAndSend then (Some ErrSmtp, w\<lparr>outbox := outbox w @ [(msg, False)]\<rparr>)
      else (None, w\<lparr>outbox := outbox w @ [(msg, True)]\<rparr>))"

text \<open>
  Lines 172 to 174. \<^verbatim>\<open>time.Duration\<close> is Go's \<^verbatim>\<open>int64\<close>: the conversion of the configured
  number of seconds and its product with \<^verbatim>\<open>time.Second\<close> wrap around in 64 bits, two's
  complement. \<^verbatim>\<open>Unix()\<close> is the number of whole seconds since the epoch, rounded down.
\<close>

definition int64 :: "int \<Rightarrow> int" where
  "int64 x = (x + 2 ^ 63) mod 2 ^ 64 - 2 ^ 63"

definition Unix :: "int \<Rightarrow> int" where
  "Unix t = t div int Second"

section \<open>The handlers of AuthHandler (src/unnamed/part_000)\<close>

definition server_error :: Result where
  "server_error = \<lparr>Code = ServerError, Msg = msg_server_error, Data = nil\<rparr>"

text \<open>Lines 59 to 120. The calls to the logger are not part of the model.\<close>

definition Register :: "Lib \<Rightarrow> Env \<Rightarrow> World \<Rightarrow> string + RegisterForm \<Rightarrow> Result \<times> World" where
  "Register lib env w ctx =
     (case ctx of
        Inl formError \<Rightarrow> (\<lparr>Code = RequestError, Msg = formError, Data = nil\<rparr>, w)
      | Inr regForm \<Rightarrow>
          let user = RegisterForm_BindToModel regForm;
              u = fst (GetByUsername env w user)
          in if Username u \<noteq> []
             then (\<lparr>Code = RequestError, Msg = msg_user_registered, Data = nil\<rparr>, w)
             else
               (case User_Create lib env w user of
                  (Some err, w1) \<Rightarrow> (server_error, w1)
                | (None, w1) \<Rightarrow>
                    (case SysSetting_Create env w1
                            \<lparr>ID = 0, CreatedAt = 0, UpdatedAt = 0, DeletedAt = None,
                             SysSetting_Name = site_setting_name\<rparr> of
                       (Some err, w2, sysSetting) \<Rightarrow> (server_error, w2)
                     | (None, w2, sysSetting) \<Rightarrow>
                         let typeItem = \<lparr>SysId = ID sysSetting, Key = ''type_name'',
                                          Val = site_setting_name\<rparr>;
                             siteUrlItem = \<lparr>SysId = ID sysSetting, Key = ''site_url'',
                                             Val = SiteUrl regForm\<rparr>;
                             siteNameItem = \<lparr>SysId = ID sysSetting, Key = ''site_name'',
                                              Val = SiteName regForm\<rparr>;
                             itemList = [typeItem, siteNameItem, siteUrlItem]
                         in (case MultiCreateOrUpdate env w2 (ID sysSetting) itemList of
                               (Some err, w3) \<Rightarrow> (server_error, w3)
                             | (None, w3) \<Rightarrow>
                                 (\<lparr>Code = Success, Msg = msg_register_ok, Data = nil\<rparr>, w3)))))"

text \<open>Lines 130 to 191.\<close>

definition Login :: "Lib \<Rightarrow> Env \<Rightarrow> World \<Rightarrow> string + LoginForm \<Rightarrow> Result \<times> World" where
  "Login lib env w ctx =
     (case ctx of
        Inl formError \<Rightarrow> (\<lparr>Code = RequestError, Msg = formError, Data = nil\<rparr>, w)
      | Inr loginForm \<Rightarrow>
          let captchaConfig = \<lparr>Id = CaptchaId loginForm, VerifyValue = CaptchaVal loginForm\<rparr>;
              (ok, w1) = CaptchaVerify lib w captchaConfig
          in if \<not> ok
             then (\<lparr>Code = RequestError, Msg = msg_captcha_error, Data = nil\<rparr>, w1)
             else
               let user = LoginForm_BindToModel loginForm;
                   u = fst (GetByUsername env w1 user)
               in if Username u = []
                  then (\<lparr>Code = RequestError, Msg = msg_no_such_user, Data = nil\<rparr>, w1)
                  else if \<not> VerifyPwd lib (Pwd u) (Pwd user)
                  then (\<lparr>Code = RequestError, Msg = msg_pwd_error, Data = nil\<rparr>, w1)
                  else
                    (case CreateToken lib env
                            \<lparr>Claims_Username = Username u, Claims_UserImg = UserImg u,
                             ExpiresAt = Unix (int (now env) +
                                           int64 (int Second * int64 (TokenExpireTime lib))),
                             IssuedAt = Unix (int (now env))\<rparr> of
                       (token, Some err) \<Rightarrow> (server_error, w1)
                     | (token, None) \<Rightarrow>
                         (\<lparr>Code = Success, Msg = msg_login_ok,
                           Data = TokenData \<lparr>Token_Token = token, Token_UserId = ID u,
                                             Token_Username = Username u,
                                             Token_UserImg = UserImg u\<rparr>\<rparr>, w1)))"

text \<open>Lines 229 to 282.\<close>

definition ForgetPwd ::
    "Lib \<Rightarrow> Env \<Rightarrow> World \<Rightarrow> string + ForgetPwdForm \<Rightarrow> Result \<times> World" where
  "ForgetPwd lib env w ctx =
     (case ctx of
        Inl formError \<Rightarrow> (\<lparr>Code = RequestError, Msg = formError, Data = nil\<rparr>, w)
      | Inr forgetPwdForm \<Rightarrow>
          let user = fst (GetByEmail env w (zero_User\<lparr>Email := forget_Email forgetPwdForm\<rparr>))
          in if Username user = []
             then (\<lparr>Code = RequestError, Msg = msg_no_such_email, Data = nil\<rparr>, w)
             else
               let verifyCode0 = fst (Cache_Get env w (forget_Email forgetPwdForm) []);
                   (verifyCode, w1) =
                     (if verifyCode0 = []
                      then let code = CreateRandomCode env 6
                           in (code, snd (Cache_Set env w (forget_Email forgetPwdForm) code
                                            (Minute * 15)))
                      else (verifyCode0, w));
                   msg = \<lparr>To = forget_Email forgetPwdForm,
                          From = (SMTP_Account lib, SMTP_Account lib),
                          Subject = subject_forget_pwd,
                          Body = GetForgetPwdEmailHTML lib (Username user) verifyCode\<rparr>
               in (case DialAndSend env w1 msg of
                     (Some err, w2) \<Rightarrow>
                       (\<lparr>Code = ServerError, Msg = msg_send_failed, Data = nil\<rparr>, w2)
                   | (None, w2) \<Rightarrow>
                       (\<lparr>Code = Success, Msg = msg_send_ok, Data = nil\<rparr>, w2)))"

text \<open>Lines 292 to 328.\<close>

definition ResetPwd ::
    "Lib \<Rightarrow> Env \<Rightarrow> World \<Rightarrow> string + ResetPwdForm \<Rightarrow> Result \<times> World" where
  "ResetPwd lib env w ctx =
     (case ctx of
        Inl formError \<Rightarrow> (\<lparr>Code = RequestError, Msg = formError, Data = nil\<rparr>, w)
      | Inr resetPwdForm \<Rightarrow>
          let verifyCode = fst (Cache_Get env w (reset_Email resetPwdForm) [])
          in if verifyCode \<noteq> VerifyCode resetPwdForm
             then (\<lparr>Code = RequestError, Msg = msg_code_invalid, Data = nil\<rparr>, w)
             else
               let user = ResetPwdForm_BindToModel resetPwdForm
               in (case UpdatePwd lib env w user of
                     (Some err, w1) \<Rightarrow> (server_error, w1)
                   | (None, w1) \<Rightarrow>
                       (\<lparr>Code = Success, Msg = msg_reset_ok, Data = nil\<rparr>, w1)))"

section \<open>Friend links (src/model/link.go)\<close>

text \<open>
  \<^verbatim>\<open>strings.Split(ids, ",")\<close> of Go's standard library, for a separator of one byte: the
  pieces between the separators, so that a string with no separator (the empty string
  too) gives one piece.
\<close>

fun Split :: "string \<Rightarrow> char \<Rightarrow> string list" where
  "Split [] sep = [[]]"
| "Split (c # cs) sep =
     (if c = sep then [] # Split cs sep
      else (case Split cs sep of [] \<Rightarrow> [[c]] | x # xs \<Rightarrow> (c # x) # xs))"

text \<open>
  The query chains of gorm that the file uses. \<^verbatim>\<open>Where(...).First(&link)\<close> is a scoped
  query: gorm adds \<^verbatim>\<open>deleted_at IS NULL\<close> for a model with the field \<^verbatim>\<open>DeletedAt\<close> and
  returns the first row in primary-key order, the order in which the table is kept here.
  \<^verbatim>\<open>Where(...).Unscoped().Delete(&Link{})\<close> is the statement
  \<^verbatim>\<open>DELETE FROM links WHERE ...\<close>: \<^verbatim>\<open>Unscoped\<close> switches the deletion marker off, for
  the filter and for the write. Line 43, line 61, lines 66 to 67.
\<close>

definition GetById :: "Lib \<Rightarrow> Env \<Rightarrow> World \<Rightarrow> string \<Rightarrow> Link \<times> error option" where
  "GetById lib env w id' =
     (if fails env OpLinkQuery then (zero_Link, Some ErrDb)
      else case find (\<lambda>l. DeletedAt l = None \<and> SqlIdEq lib (ID l) id') (links w) of
             None \<Rightarrow> (zero_Link, Some ErrRecordNotFound)
           | Some l \<Rightarrow> (l, None))"

definition DeleteById :: "Lib \<Rightarrow> Env \<Rightarrow> World \<Rightarrow> string \<Rightarrow> error option \<times> World" where
  "DeleteById lib env w id' =
     (if fails env OpLinkDelete then (Some ErrDb, w)
      else (None, w\<lparr>links := filter (\<lambda>l. \<not> SqlIdEq lib (ID l) id') (links w)\<rparr>))"

definition MultiDelByIds :: "Lib \<Rightarrow> Env \<Rightarrow> World \<Rightarrow> string \<Rightarrow> error option \<times> World" where
  "MultiDelByIds lib env w ids =
     (let idList = Split ids (CHR '','')
      in if fails env OpLinkDelete then (Some ErrDb, w)
         else (None, w\<lparr>links := filter (\<lambda>l. \<not> list_ex (SqlIdEq lib (ID l)) idList)
                                    (links w)\<rparr>))"

text \<open>
  For comparison, the deletion that the specification describes: "soft-delete-by-marker
  on categories/links maps to an explicit deleted_at nullable timestamp field with all
  queries filtering on it". It is gorm's \<^verbatim>\<open>Delete\<close> without \<^verbatim>\<open>Unscoped\<close>; the source
  does not call it.
\<close>

definition spec_SoftDeleteById :: "Lib \<Rightarrow> Env \<Rightarrow> World \<Rightarrow> string \<Rightarrow> error option \<times> World" where
  "spec_SoftDeleteById lib env w id' =
     (if fails env OpLinkDelete then (Some ErrDb, w)
      else (None, w\<lparr>links := map (\<lambda>l. if DeletedAt l = None \<and> SqlIdEq lib (ID l) id'
                                         then l\<lparr>DeletedAt := Some (now env)\<rparr> else l)
                                 (links w)\<rparr>))"

section \<open>Concrete surroundings for the examples\<close>

fun decimal :: "nat \<Rightarrow> string" where
  "decimal n =
     (if n < 10 then [''0123456789'' ! n]
      else decimal (n div 10) @ [''0123456789'' ! (n mod 10)])"

definition lib0 :: Lib where
  "lib0 = \<lparr>EncryptPwd = (\<lambda>p. ''#'' @ p), VerifyPwd = (\<lambda>h p. h = ''#'' @ p),
           CaptchaMatch = (\<lambda>a v. a = v), SignToken = (\<lambda>c. ''jwt:'' @ Claims_Username c),
           GetForgetPwdEmailHTML = (\<lambda>u c. u @ '':'' @ c),
           SqlIdEq = (\<lambda>n s. decimal n = s),
           SMTP_Account = ''blog@x.com'', TokenExpireTime = 3600\<rparr>"

definition env0 :: Env where
  "env0 = \<lparr>now = 1000 * Second, fails = (\<lambda>op. False), rand = (\<lambda>i. CHR ''A'')\<rparr>"

definition alice :: User where
  "alice = \<lparr>ID = 1, CreatedAt = 0, UpdatedAt = 0, DeletedAt = None,
            Username = ''alice'', Pwd = ''#Secret123!'', Email = ''a@x.com'', UserImg = []\<rparr>"

definition alice_form :: RegisterForm where
  "alice_form = \<lparr>reg_Username = ''alice'', reg_Pwd = ''Secret123!'', reg_Email = ''a@x.com'',
                 SiteName = ''Blog'', SiteUrl = ''https://blog.example''\<rparr>"

definition world_empty :: World where
  "world_empty = \<lparr>users = [], sys_settings = [], sys_setting_items = [], links = [],
                  cache = Map.empty, captchas = Map.empty, outbox = []\<rparr>"

definition env_lookup_down :: Env where
  "env_lookup_down = env0\<lparr>fails := (\<lambda>op. op = OpGetByUsername)\<rparr>"

definition world0 :: World where
  "world0 = \<lparr>users = [alice], sys_settings = [], sys_setting_items = [], links = [],
             cache = Map.empty, captchas = [''c1'' \<mapsto> ''k7pq''], outbox = []\<rparr>"

definition link1 :: Link where
  "link1 = \<lparr>ID = 1, CreatedAt = 0, UpdatedAt = 0, DeletedAt = None,
            CategoryId = None, Link_Name = ''friend'', Url = ''https://f.example'',
            Desc = [], Icon = ''f.png''\<rparr>"

definition login_form :: LoginForm where
  "login_form = \<lparr>login_Username = ''alice'', login_Pwd = ''Secret123!'',
                  CaptchaId = ''c1'', CaptchaVal = ''k7pq''\<rparr>"

definition world_plain :: World where
  "world_plain = world0\<lparr>users := [alice\<lparr>Pwd := ''Secret123!''\<rparr>]\<rparr>"

definition forget_form :: ForgetPwdForm where
  "forget_form = \<lparr>forget_Email = ''a@x.com''\<rparr>"

definition env_at :: "nat \<Rightarrow> Env" where
  "env_at t = \<lparr>now = t, fails = (\<lambda>op. False), rand = (\<lambda>i. ''x7Kp2Q'' ! (i mod 6))\<rparr>"

definition t1 :: nat where
  "t1 = 1000 * Second"

definition forget_msg :: Message where
  "forget_msg = \<lparr>To = ''a@x.com'', From = (''blog@x.com'', ''blog@x.com''),
                  Subject = subject_forget_pwd, Body = ''alice:x7Kp2Q''\<rparr>"

definition world_sent :: World where
  "world_sent = world0\<lparr>cache := [''a@x.com'' \<mapsto> (''x7Kp2Q'', t1 + Minute * 15)],
                        outbox := [(forget_msg, True)]\<rparr>"

definition reset_form :: ResetPwdForm where
  "reset_form = \<lparr>reset_Email = ''a@x.com'', VerifyCode = ''x7Kp2Q'', reset_Pwd = ''NewPass1!''\<rparr>"

definition world_reset :: World where
  "world_reset = world_sent\<lparr>users := [alice\<lparr>Pwd := ''#NewPass1!'',
                                              UpdatedAt := t1 + Minute\<rparr>]\<rparr>"

definition world_link :: World where
  "world_link = world_empty\<lparr>links := [link1]\<rparr>"

section \<open>Auxiliary facts\<close>

lemma find_pred: "find P xs = Some x \<Longrightarrow> P x"
  by (auto simp: find_Some_iff)

lemma find_exists: "x \<in> set xs \<Longrightarrow> P x \<Longrightarrow> \<exists>y. find P xs = Some y"
  by (cases "find P xs") (auto simp: find_None_iff)

lemma GetByUsername_found:
  assumes "u \<in> set (users w)" "DeletedAt u = None" "Username u = Username user"
    and "\<not> fails env OpGetByUsername"
  shows "\<exists>u'. GetByUsername env w user = (u', None) \<and> Username u' = Username user"
proof -
  let ?P = "\<lambda>u. DeletedAt u = None \<and> Username u = Username user"
  from assms obtain y where y: "find ?P (users w) = Some y"
    using find_exists [of u "users w" ?P] by auto
  then have "?P y" by (rule find_pred)
  with y assms(4) show ?thesis by (simp add: GetByUsername_def)
qed

lemmas example_defs = lib0_def env0_def world0_def world_empty_def alice_def alice_form_def

lemmas db_defs = GetByUsername_def GetByEmail_def User_Create_def UpdatePwd_def
  SysSetting_Create_def MultiCreateOrUpdate_def next_ID_def zero_User_def
  RegisterForm_BindToModel_def LoginForm_BindToModel_def ResetPwdForm_BindToModel_def

text \<open>
  What \<open>ForgetPwd\<close> does for an address whose lookup returns a user: the code it mails is
  the one the cache returns, or a fresh one that it stores for 15 minutes.
\<close>

lemma ForgetPwd_registered:
  assumes "find (\<lambda>u. DeletedAt u = None \<and> Email u = forget_Email f) (users w) = Some u"
    and "Username u \<noteq> []" and "\<not> fails env OpGetByEmail"
  shows "ForgetPwd lib env w (Inr f) =
    (let verifyCode0 = fst (Cache_Get env w (forget_Email f) []);
         verifyCode = (if verifyCode0 = [] then CreateRandomCode env 6 else verifyCode0);
         w1 = (if verifyCode0 = []
               then w\<lparr>cache := (cache w)(forget_Email f \<mapsto> (verifyCode, now env + Minute * 15))\<rparr>
               else w);
         msg = \<lparr>To = forget_Email f, From = (SMTP_Account lib, SMTP_Account lib),
                Subject = subject_forget_pwd,
                Body = GetForgetPwdEmailHTML lib (Username u) verifyCode\<rparr>
     in (if fails env OpDialAndSend
         then \<lparr>Code = ServerError, Msg = msg_send_failed, Data = nil\<rparr>
         else \<lparr>Code = Success, Msg = msg_send_ok, Data = nil\<rparr>,
         w1\<lparr>outbox := outbox w1 @ [(msg, \<not> fails env OpDialAndSend)]\<rparr>))"
  using assms
  by (simp add: ForgetPwd_def Let_def GetByEmail_def Cache_Set_def DialAndSend_def zero_User_def)

lemma length_CreateRandomCode: "length (CreateRandomCode env n) = n"
  by (simp add: CreateRandomCode_def)

lemma CreateRandomCode_6_nonempty: "CreateRandomCode env 6 \<noteq> []"
  using length_CreateRandomCode [of env 6] by auto

lemma upt_6: "[0..<6] = [0, 1, 2, 3, 4, 5::nat]"
  by (simp add: upt_rec)

lemma CreateRandomCode_env_at: "CreateRandomCode (env_at t) 6 = ''x7Kp2Q''"
  by (simp add: CreateRandomCode_def env_at_def upt_6)

lemma Cache_Get_live:
  "cache w k = Some (v, expiry) \<Longrightarrow> now env < expiry \<Longrightarrow> Cache_Get env w k var = (v, None)"
  by (simp add: Cache_Get_def)

lemma Cache_Get_absent:
  "cache w k = None \<Longrightarrow> Cache_Get env w k var = (var, Some ErrCacheMiss)"
  by (simp add: Cache_Get_def)

lemma Cache_Get_expired:
  "cache w k = Some (v, expiry) \<Longrightarrow> expiry \<le> now env
     \<Longrightarrow> Cache_Get env w k var = (var, Some ErrCacheMiss)"
  by (simp add: Cache_Get_def)

lemmas forget_defs = ForgetPwd_def Let_def GetByEmail_def Cache_Get_def Cache_Set_def
  DialAndSend_def zero_User_def

text \<open>
  Two runs on the example data: alice asks for a code at \<open>t1\<close>, and one minute later
  resets her password with it.
\<close>

lemma first_request:
  "ForgetPwd lib0 (env_at t1) world0 (Inr forget_form) =
     (\<lparr>Code = Success, Msg = msg_send_ok, Data = nil\<rparr>, world_sent)"
  by (simp add: forget_defs CreateRandomCode_env_at world_sent_def forget_msg_def)
     (simp add: env_at_def world0_def alice_def lib0_def forget_form_def)

lemma first_reset:
  "ResetPwd lib0 (env_at (t1 + Minute)) world_sent (Inr reset_form) =
     (\<lparr>Code = Success, Msg = msg_reset_ok, Data = nil\<rparr>, world_reset)"
  by (simp add: ResetPwd_def Let_def Cache_Get_def UpdatePwd_def ResetPwdForm_BindToModel_def
        zero_User_def world_reset_def)
     (simp add: world_sent_def world0_def alice_def env_at_def lib0_def reset_form_def
        Minute_def Second_def)

section \<open>Registration\<close>

text \<open>
  C1, as the handler has it. A registration request whose username is the username of an
  existing user record, and whose lookup of that username at line 73 returns without an
  error, is answered with the request-error envelope carrying the message of line 76,
  and the state is left as it was: no user record, no settings group and no settings
  item is created. The username of a bound form is not empty (the form's validation
  requires it). The handler learns that a username is taken from the lookup alone and
  drops the lookup's error, so the statement does not extend to a lookup that fails.
\<close>

theorem C1_register_existing_username:
  assumes "u \<in> set (users w)" and "DeletedAt u = None"
    and "Username u = reg_Username regForm" and "reg_Username regForm \<noteq> []"
    and "\<not> fails env OpGetByUsername"
  shows "Register lib env w (Inr regForm) =
           (\<lparr>Code = RequestError, Msg = msg_user_registered, Data = nil\<rparr>, w)"
proof -
  have "Username (RegisterForm_BindToModel regForm) = reg_Username regForm"
    by (simp add: RegisterForm_BindToModel_def zero_User_def)
  with assms GetByUsername_found [of u w "RegisterForm_BindToModel regForm" env]
  obtain u' where "GetByUsername env w (RegisterForm_BindToModel regForm) = (u', None)"
    and "Username u' = reg_Username regForm" by auto
  with assms(4) show ?thesis by (simp add: Register_def Let_def)
qed

text \<open>
  The scenario of the specification: registering alice in an empty system succeeds and
  creates her record; registering alice again is refused and changes nothing.
\<close>

theorem C1_witness:
  "Code (fst (Register lib0 env0 world_empty (Inr alice_form))) = Success \<and>
   users (snd (Register lib0 env0 world_empty (Inr alice_form))) =
     [alice\<lparr>CreatedAt := now env0, UpdatedAt := now env0\<rparr>] \<and>
   Register lib0 env0 (snd (Register lib0 env0 world_empty (Inr alice_form))) (Inr alice_form) =
     (\<lparr>Code = RequestError, Msg = msg_user_registered, Data = nil\<rparr>,
      snd (Register lib0 env0 world_empty (Inr alice_form)))"
proof -
  let ?w1 = "snd (Register lib0 env0 world_empty (Inr alice_form))"
  let ?a = "alice\<lparr>CreatedAt := now env0, UpdatedAt := now env0\<rparr>"
  have c: "Code (fst (Register lib0 env0 world_empty (Inr alice_form))) = Success"
    by (simp add: Register_def Let_def db_defs example_defs)
  have u: "users ?w1 = [?a]"
    by (simp add: Register_def Let_def db_defs example_defs)
  have h1: "?a \<in> set (users ?w1)" by (simp add: u)
  have h2: "DeletedAt ?a = None" by (simp add: alice_def)
  have h3: "Username ?a = reg_Username alice_form" by (simp add: alice_def alice_form_def)
  have h4: "reg_Username alice_form \<noteq> []" by (simp add: alice_form_def)
  have h5: "\<not> fails env0 OpGetByUsername" by (simp add: env0_def)
  from c u C1_register_existing_username [OF h1 h2 h3 h4 h5, of lib0] show ?thesis by simp
qed

text \<open>
  The claim for every registration request fails where the lookup of line 73 fails:
  alice is registered, the request carries her username, and the answer is success with
  a second record of that username written.
\<close>

theorem C1_counterexample:
  "alice \<in> set (users world0) \<and> DeletedAt alice = None \<and>
   Username alice = reg_Username alice_form \<and>
   fst (Register lib0 env_lookup_down world0 (Inr alice_form)) =
     \<lparr>Code = Success, Msg = msg_register_ok, Data = nil\<rparr> \<and>
   users (snd (Register lib0 env_lookup_down world0 (Inr alice_form))) =
     [alice, alice\<lparr>ID := 2, CreatedAt := now env0, UpdatedAt := now env0\<rparr>] \<and>
   length (sys_settings (snd (Register lib0 env_lookup_down world0 (Inr alice_form)))) = 1 \<and>
   length (sys_setting_items (snd (Register lib0 env_lookup_down world0 (Inr alice_form)))) = 3"
  by (simp add: Register_def Let_def db_defs example_defs env_lookup_down_def)

text \<open>
  C10. The error that the lookup of line 73 returns is discarded. When the lookup fails,
  the user value is Go's zero value, whose username is empty, so the test of line 74 takes
  the username for unregistered and the handler goes on to \<^verbatim>\<open>user.Create()\<close>: the
  response is a server error only if one of the later writes fails, and when
  \<^verbatim>\<open>user.Create()\<close> succeeds the user record is appended to the table, whether or not
  the username was registered before.
\<close>

theorem C10_register_lookup_error_discarded:
  assumes "fails env OpGetByUsername"
  shows "GetByUsername env w (RegisterForm_BindToModel regForm) = (zero_User, Some ErrDb) \<and>
         Username zero_User = [] \<and>
         (if fails env OpUserCreate
          then Register lib env w (Inr regForm) = (server_error, w)
          else users (snd (Register lib env w (Inr regForm))) =
                 users w @ [(RegisterForm_BindToModel regForm)
                              \<lparr>ID := next_ID (map ID (users w)), CreatedAt := now env,
                               UpdatedAt := now env, Pwd := EncryptPwd lib (reg_Pwd regForm)\<rparr>] \<and>
               (if fails env OpSysSettingCreate \<or> fails env OpMultiCreateOrUpdate
                then fst (Register lib env w (Inr regForm)) = server_error
                else fst (Register lib env w (Inr regForm)) =
                       \<lparr>Code = Success, Msg = msg_register_ok, Data = nil\<rparr>))"
  using assms
  by (simp add: Register_def Let_def GetByUsername_def User_Create_def SysSetting_Create_def
      MultiCreateOrUpdate_def zero_User_def RegisterForm_BindToModel_def)

text \<open>
  With alice registered and the lookup failing, a second registration of alice is
  answered with success and the table holds two records of that username.
\<close>

theorem C10_witness:
  "fails env_lookup_down OpGetByUsername \<and>
   alice \<in> set (users world0) \<and> Username alice = reg_Username alice_form \<and>
   fst (Register lib0 env_lookup_down world0 (Inr alice_form)) =
     \<lparr>Code = Success, Msg = msg_register_ok, Data = nil\<rparr> \<and>
   map Username (users (snd (Register lib0 env_lookup_down world0 (Inr alice_form)))) =
     [''alice'', ''alice'']"
proof -
  have h: "fails env_lookup_down OpGetByUsername" by (simp add: env_lookup_down_def)
  have n: "\<not> fails env_lookup_down OpUserCreate" "\<not> fails env_lookup_down OpSysSettingCreate"
    "\<not> fails env_lookup_down OpMultiCreateOrUpdate"
    by (simp_all add: env_lookup_down_def)
  from C10_register_lookup_error_discarded [OF h, of world0 alice_form lib0] n h
  show ?thesis
    by (simp add: world0_def alice_def alice_form_def RegisterForm_BindToModel_def zero_User_def)
qed

section \<open>Login\<close>

text \<open>
  C2. A login request whose captcha id and value fail \<^verbatim>\<open>utils.CaptchaVerify\<close> is answered
  with the request-error envelope carrying the message of line 149. The handler returns
  at line 151, before the user is looked up and before the password is compared: the
  response and the state it leaves (the challenge is consumed) are the same for every
  username and every password in the request, whatever the user table holds.
\<close>

theorem C2_login_captcha_failure:
  assumes "\<not> fst (CaptchaVerify lib w
                     \<lparr>Id = CaptchaId loginForm, VerifyValue = CaptchaVal loginForm\<rparr>)"
  shows "Login lib env w (Inr (loginForm\<lparr>login_Username := name, login_Pwd := pwd\<rparr>)) =
           (\<lparr>Code = RequestError, Msg = msg_captcha_error, Data = nil\<rparr>,
            w\<lparr>captchas := (captchas w)(CaptchaId loginForm := None)\<rparr>)"
  using assms by (simp add: Login_def CaptchaVerify_def Let_def)

text \<open>
  With a wrong captcha value, alice's correct credentials and mallory's guess get the
  same answer; with the right captcha value alice is logged in.
\<close>

theorem C2_witness:
  "\<not> fst (CaptchaVerify lib0 world0 \<lparr>Id = ''c1'', VerifyValue = ''wrong''\<rparr>) \<and>
   Login lib0 env0 world0 (Inr (login_form\<lparr>CaptchaVal := ''wrong''\<rparr>)) =
     (\<lparr>Code = RequestError, Msg = msg_captcha_error, Data = nil\<rparr>,
      world0\<lparr>captchas := Map.empty\<rparr>) \<and>
   Login lib0 env0 world0
     (Inr (login_form\<lparr>CaptchaVal := ''wrong'', login_Username := ''mallory'',
                      login_Pwd := ''guess''\<rparr>)) =
     (\<lparr>Code = RequestError, Msg = msg_captcha_error, Data = nil\<rparr>,
      world0\<lparr>captchas := Map.empty\<rparr>) \<and>
   Code (fst (Login lib0 env0 world0 (Inr login_form))) = Success"
proof -
  let ?f = "login_form\<lparr>CaptchaVal := ''wrong''\<rparr>"
  have h: "\<not> fst (CaptchaVerify lib0 world0 \<lparr>Id = CaptchaId ?f, VerifyValue = CaptchaVal ?f\<rparr>)"
    by (simp add: CaptchaVerify_def lib0_def world0_def login_form_def)
  have e: "(captchas world0)(''c1'' := None) = Map.empty"
    by (simp add: world0_def)
  have ok: "Code (fst (Login lib0 env0 world0 (Inr login_form))) = Success"
    by (simp add: Login_def CaptchaVerify_def Let_def GetByUsername_def CreateToken_def
        LoginForm_BindToModel_def zero_User_def lib0_def env0_def world0_def alice_def
        login_form_def)
  from h e ok
    C2_login_captcha_failure [OF h, where env = env0 and name = "''alice''"
      and pwd = "''Secret123!''"]
    C2_login_captcha_failure [OF h, where env = env0 and name = "''mallory''"
      and pwd = "''guess''"]
  show ?thesis by (simp add: login_form_def)
qed

text \<open>
  C3. A login request with a valid captcha and the username of an existing user, the
  record \<open>u\<close> that the lookup of line 154 returns, whose password does not pass
  \<^verbatim>\<open>utils.VerifyPwd\<close> against the stored hash \<open>Pwd u\<close>, is answered with the
  request-error envelope carrying the message of line 163 and no token (the data is nil).
  The submitted password reaches the decision only as an argument of \<open>VerifyPwd\<close>: the
  statement holds for every such function, also where the stored value and the submitted
  password are the same string, as in the example that follows.
\<close>

theorem C3_login_wrong_password:
  assumes "fst (CaptchaVerify lib w
                  \<lparr>Id = CaptchaId loginForm, VerifyValue = CaptchaVal loginForm\<rparr>)"
    and "find (\<lambda>u. DeletedAt u = None \<and> Username u = login_Username loginForm) (users w) = Some u"
    and "login_Username loginForm \<noteq> []"
    and "\<not> fails env OpGetByUsername"
    and "\<not> VerifyPwd lib (Pwd u) (login_Pwd loginForm)"
  shows "Login lib env w (Inr loginForm) =
           (\<lparr>Code = RequestError, Msg = msg_pwd_error, Data = nil\<rparr>,
            w\<lparr>captchas := (captchas w)(CaptchaId loginForm := None)\<rparr>)"
proof -
  from assms(2) have "Username u = login_Username loginForm"
    by (auto simp: find_Some_iff)
  with assms show ?thesis
    by (simp add: Login_def CaptchaVerify_def Let_def GetByUsername_def
        LoginForm_BindToModel_def zero_User_def)
qed

text \<open>
  The stored value is the very string that is submitted, and the verification function
  of the example (which expects a marked hash) rejects it: the login is refused.
\<close>

theorem C3_witness:
  "fst (CaptchaVerify lib0 world_plain \<lparr>Id = ''c1'', VerifyValue = ''k7pq''\<rparr>) \<and>
   Pwd (alice\<lparr>Pwd := ''Secret123!''\<rparr>) = login_Pwd login_form \<and>
   \<not> VerifyPwd lib0 (Pwd (alice\<lparr>Pwd := ''Secret123!''\<rparr>)) (login_Pwd login_form) \<and>
   Login lib0 env0 world_plain (Inr login_form) =
     (\<lparr>Code = RequestError, Msg = msg_pwd_error, Data = nil\<rparr>,
      world_plain\<lparr>captchas := Map.empty\<rparr>)"
proof -
  let ?u = "alice\<lparr>Pwd := ''Secret123!''\<rparr>"
  have h1: "fst (CaptchaVerify lib0 world_plain
                  \<lparr>Id = CaptchaId login_form, VerifyValue = CaptchaVal login_form\<rparr>)"
    by (simp add: CaptchaVerify_def lib0_def world_plain_def world0_def login_form_def)
  have h2: "find (\<lambda>u. DeletedAt u = None \<and> Username u = login_Username login_form)
              (users world_plain) = Some ?u"
    by (simp add: world_plain_def world0_def alice_def login_form_def)
  have h3: "login_Username login_form \<noteq> []" by (simp add: login_form_def)
  have h4: "\<not> fails env0 OpGetByUsername" by (simp add: env0_def)
  have h5: "\<not> VerifyPwd lib0 (Pwd ?u) (login_Pwd login_form)"
    by (simp add: lib0_def login_form_def)
  have e: "(captchas world_plain)(''c1'' := None) = Map.empty"
    by (simp add: world_plain_def world0_def)
  from h1 h5 e C3_login_wrong_password [OF h1 h2 h3 h4 h5]
  show ?thesis by (simp add: login_form_def)
qed

text \<open>
  The other direction: a password that passes \<open>VerifyPwd\<close> is accepted and a token is
  issued, whatever the two strings are.
\<close>

lemma Login_verified_password:
  assumes "fst (CaptchaVerify lib w
                  \<lparr>Id = CaptchaId loginForm, VerifyValue = CaptchaVal loginForm\<rparr>)"
    and "find (\<lambda>u. DeletedAt u = None \<and> Username u = login_Username loginForm) (users w) = Some u"
    and "login_Username loginForm \<noteq> []"
    and "\<not> fails env OpGetByUsername" and "\<not> fails env OpCreateToken"
    and "VerifyPwd lib (Pwd u) (login_Pwd loginForm)"
  shows "Code (fst (Login lib env w (Inr loginForm))) = Success \<and>
         Data (fst (Login lib env w (Inr loginForm))) \<noteq> nil"
proof -
  from assms(2) have "Username u = login_Username loginForm"
    by (auto simp: find_Some_iff)
  with assms show ?thesis
    by (simp add: Login_def CaptchaVerify_def Let_def GetByUsername_def CreateToken_def
        LoginForm_BindToModel_def zero_User_def)
qed

section \<open>Forgot password\<close>

text \<open>
  C8. A forgot-password request whose email is the email of no user record is answered
  with the request-error envelope carrying the message of line 243, and the state is left
  as it was: nothing reaches the SMTP dialer and nothing is written to the cache. The
  statement needs only that no record without a deletion marker has the email.
\<close>

theorem C8_forget_pwd_unknown_email:
  assumes "\<not> (\<exists>u \<in> set (users w). DeletedAt u = None \<and> Email u = forget_Email forgetPwdForm)"
  shows "ForgetPwd lib env w (Inr forgetPwdForm) =
           (\<lparr>Code = RequestError, Msg = msg_no_such_email, Data = nil\<rparr>, w)"
proof -
  from assms
  have "find (\<lambda>u. DeletedAt u = None \<and> Email u = forget_Email forgetPwdForm) (users w) = None"
    by (simp add: find_None_iff)
  then have "fst (GetByEmail env w (zero_User\<lparr>Email := forget_Email forgetPwdForm\<rparr>)) = zero_User"
    by (simp add: GetByEmail_def)
  then show ?thesis
    by (simp add: ForgetPwd_def Let_def zero_User_def)
qed

theorem C8_witness:
  "\<not> (\<exists>u \<in> set (users world0). DeletedAt u = None \<and> Email u = ''nobody@x.com'') \<and>
   ForgetPwd lib0 env0 world0 (Inr \<lparr>forget_Email = ''nobody@x.com''\<rparr>) =
     (\<lparr>Code = RequestError, Msg = msg_no_such_email, Data = nil\<rparr>, world0) \<and>
   outbox (snd (ForgetPwd lib0 env0 world0 (Inr \<lparr>forget_Email = ''nobody@x.com''\<rparr>))) = [] \<and>
   outbox (snd (ForgetPwd lib0 env0 world0 (Inr forget_form))) \<noteq> []"
proof -
  have h: "\<not> (\<exists>u \<in> set (users world0). DeletedAt u = None \<and>
                 Email u = forget_Email \<lparr>forget_Email = ''nobody@x.com''\<rparr>)"
    by (simp add: world0_def alice_def)
  have o: "outbox world0 = []" by (simp add: world0_def)
  have s: "outbox (snd (ForgetPwd lib0 env0 world0 (Inr forget_form))) \<noteq> []"
    by (simp add: ForgetPwd_def Let_def GetByEmail_def Cache_Get_def Cache_Set_def
        DialAndSend_def zero_User_def world0_def alice_def env0_def forget_form_def
        split: prod.split)
  from h o s C8_forget_pwd_unknown_email [OF h, of lib0 env0] show ?thesis by simp
qed

text \<open>
  C4. For a registered email (the lookup returns the record \<open>u\<close>), take a first
  forgot-password request and a second one made while the cache entry that the first
  request left for the email, \<open>(code, expiry)\<close>, has not expired. Both requests hand the
  same message to the SMTP dialer, whose body is built from \<open>code\<close>, and the second
  request leaves the cache as the first one left it. A code that the first request
  generated expires 15 minutes after that request (\<open>ForgetPwd_registered\<close>).
\<close>

theorem C4_forget_pwd_resend_idempotent:
  assumes reg: "find (\<lambda>u. DeletedAt u = None \<and> Email u = forget_Email f) (users w) = Some u"
      "Username u \<noteq> []"
    and up: "\<not> fails env1 OpGetByEmail" "\<not> fails env2 OpGetByEmail"
    and first: "ForgetPwd lib env1 w (Inr f) = (r1, w1)"
    and live: "cache w1 (forget_Email f) = Some (code, expiry)" "now env2 < expiry"
    and second: "ForgetPwd lib env2 w1 (Inr f) = (r2, w2)"
  shows "cache w2 = cache w1 \<and>
         outbox w1 = outbox w @
           [(\<lparr>To = forget_Email f, From = (SMTP_Account lib, SMTP_Account lib),
              Subject = subject_forget_pwd,
              Body = GetForgetPwdEmailHTML lib (Username u) code\<rparr>, \<not> fails env1 OpDialAndSend)] \<and>
         outbox w2 = outbox w1 @
           [(\<lparr>To = forget_Email f, From = (SMTP_Account lib, SMTP_Account lib),
              Subject = subject_forget_pwd,
              Body = GetForgetPwdEmailHTML lib (Username u) code\<rparr>, \<not> fails env2 OpDialAndSend)]"
proof -
  let ?k = "forget_Email f"
  let ?v0 = "fst (Cache_Get env1 w ?k [])"
  note eq1 = ForgetPwd_registered [OF reg up(1), of lib]
  have users1: "users w1 = users w"
    using first eq1 by (auto simp: Let_def split: if_splits)
  have code1: "code = (if ?v0 = [] then CreateRandomCode env1 6 else ?v0)"
  proof (cases "?v0 = []")
    case True
    with first eq1 live(1) show ?thesis by (auto simp: Let_def)
  next
    case False
    with first eq1 have "cache w1 = cache w" by (auto simp: Let_def)
    with live(1) False show ?thesis
      by (auto simp: Cache_Get_def split: option.splits prod.splits if_splits)
  qed
  then have nonempty: "code \<noteq> []"
    using CreateRandomCode_6_nonempty [of env1] by (auto split: if_splits)
  have out1: "outbox w1 = outbox w @
           [(\<lparr>To = ?k, From = (SMTP_Account lib, SMTP_Account lib),
              Subject = subject_forget_pwd,
              Body = GetForgetPwdEmailHTML lib (Username u) code\<rparr>, \<not> fails env1 OpDialAndSend)]"
    using first eq1 code1 by (auto simp: Let_def split: if_splits)
  have get2: "fst (Cache_Get env2 w1 ?k []) = code"
    using live by (simp add: Cache_Get_def)
  from reg users1
  have reg2: "find (\<lambda>u. DeletedAt u = None \<and> Email u = forget_Email f) (users w1) = Some u"
    by simp
  note eq2 = ForgetPwd_registered [OF reg2 reg(2) up(2), of lib]
  from second eq2 get2 nonempty
  have "cache w2 = cache w1" and "outbox w2 = outbox w1 @
           [(\<lparr>To = ?k, From = (SMTP_Account lib, SMTP_Account lib),
              Subject = subject_forget_pwd,
              Body = GetForgetPwdEmailHTML lib (Username u) code\<rparr>, \<not> fails env2 OpDialAndSend)]"
    by (auto simp: Let_def)
  with out1 show ?thesis by simp
qed

text \<open>
  Alice asks for a code at \<open>t1\<close> and again 14 minutes later: the same message is handed
  to the dialer twice and the cache entry of the first request stands.
\<close>

theorem C4_witness:
  "ForgetPwd lib0 (env_at t1) world0 (Inr forget_form) =
     (\<lparr>Code = Success, Msg = msg_send_ok, Data = nil\<rparr>, world_sent) \<and>
   cache world_sent ''a@x.com'' = Some (''x7Kp2Q'', t1 + Minute * 15) \<and>
   now (env_at (t1 + Minute * 14)) < t1 + Minute * 15 \<and>
   cache (snd (ForgetPwd lib0 (env_at (t1 + Minute * 14)) world_sent (Inr forget_form))) =
     cache world_sent \<and>
   outbox (snd (ForgetPwd lib0 (env_at (t1 + Minute * 14)) world_sent (Inr forget_form))) =
     [(forget_msg, True), (forget_msg, True)]"
proof -
  let ?e2 = "env_at (t1 + Minute * 14)"
  have reg: "find (\<lambda>u. DeletedAt u = None \<and> Email u = forget_Email forget_form) (users world0)
               = Some alice" "Username alice \<noteq> []"
    by (simp_all add: world0_def alice_def forget_form_def)
  have up: "\<not> fails (env_at t1) OpGetByEmail" "\<not> fails ?e2 OpGetByEmail"
    by (simp_all add: env_at_def)
  have live: "cache world_sent (forget_Email forget_form) = Some (''x7Kp2Q'', t1 + Minute * 15)"
    "now ?e2 < t1 + Minute * 15"
    by (simp_all add: world_sent_def forget_form_def env_at_def Minute_def Second_def)
  have second: "ForgetPwd lib0 ?e2 world_sent (Inr forget_form) =
     (fst (ForgetPwd lib0 ?e2 world_sent (Inr forget_form)),
      snd (ForgetPwd lib0 ?e2 world_sent (Inr forget_form)))"
    by simp
  have o: "outbox world_sent = [(forget_msg, True)]" "outbox world0 = []"
    by (simp_all add: world_sent_def world0_def)
  have m: "\<lparr>To = forget_Email forget_form, From = (SMTP_Account lib0, SMTP_Account lib0),
            Subject = subject_forget_pwd,
            Body = GetForgetPwdEmailHTML lib0 (Username alice) ''x7Kp2Q''\<rparr> = forget_msg"
    by (simp add: forget_msg_def forget_form_def lib0_def alice_def)
  have d: "\<not> fails ?e2 OpDialAndSend" by (simp add: env_at_def)
  from C4_forget_pwd_resend_idempotent [OF reg up first_request live second] first_request
    live o m d
  show ?thesis by (simp add: forget_form_def)
qed

text \<open>
  C5, as the handler has it. For a registered email, a forgot-password request made when
  the code issued before has expired calls \<^verbatim>\<open>utils.CreateRandomCode(6)\<close>, stores the
  code of 6 characters that it returns under the email, to expire 15 minutes after the
  request, and hands a message with that code to the dialer. The new code is drawn
  without regard to the previous one: nothing makes the two differ.
\<close>

theorem C5_forget_pwd_after_expiry:
  assumes reg: "find (\<lambda>u. DeletedAt u = None \<and> Email u = forget_Email f) (users w) = Some u"
      "Username u \<noteq> []"
    and up: "\<not> fails env OpGetByEmail"
    and old: "cache w (forget_Email f) = Some (previous, expiry)" "expiry < now env"
  shows "length (CreateRandomCode env 6) = 6 \<and>
         cache (snd (ForgetPwd lib env w (Inr f))) =
           (cache w)(forget_Email f \<mapsto> (CreateRandomCode env 6, now env + Minute * 15)) \<and>
         outbox (snd (ForgetPwd lib env w (Inr f))) = outbox w @
           [(\<lparr>To = forget_Email f, From = (SMTP_Account lib, SMTP_Account lib),
              Subject = subject_forget_pwd,
              Body = GetForgetPwdEmailHTML lib (Username u) (CreateRandomCode env 6)\<rparr>,
             \<not> fails env OpDialAndSend)]"
proof -
  from old have "fst (Cache_Get env w (forget_Email f) []) = []"
    by (simp add: Cache_Get_def)
  with ForgetPwd_registered [OF reg up, of lib] show ?thesis
    by (simp add: Let_def length_CreateRandomCode)
qed

theorem C5_witness:
  "cache world_sent ''a@x.com'' = Some (''x7Kp2Q'', t1 + Minute * 15) \<and>
   t1 + Minute * 15 < now (env_at (t1 + Minute * 16)) \<and>
   cache (snd (ForgetPwd lib0 (env_at (t1 + Minute * 16)) world_sent (Inr forget_form))) =
     [''a@x.com'' \<mapsto> (''x7Kp2Q'', t1 + Minute * 16 + Minute * 15)] \<and>
   outbox (snd (ForgetPwd lib0 (env_at (t1 + Minute * 16)) world_sent (Inr forget_form))) =
     [(forget_msg, True), (forget_msg, True)]"
proof -
  let ?e = "env_at (t1 + Minute * 16)"
  have reg: "find (\<lambda>u. DeletedAt u = None \<and> Email u = forget_Email forget_form)
               (users world_sent) = Some alice" "Username alice \<noteq> []"
    by (simp_all add: world_sent_def world0_def alice_def forget_form_def)
  have up: "\<not> fails ?e OpGetByEmail" by (simp add: env_at_def)
  have old: "cache world_sent (forget_Email forget_form) = Some (''x7Kp2Q'', t1 + Minute * 15)"
    "t1 + Minute * 15 < now ?e"
    by (simp_all add: world_sent_def forget_form_def env_at_def Minute_def Second_def)
  have o: "outbox world_sent = [(forget_msg, True)]"
    by (simp add: world_sent_def)
  have c: "(cache world_sent)(''a@x.com'' \<mapsto> (''x7Kp2Q'', t1 + Minute * 16 + Minute * 15)) =
           [''a@x.com'' \<mapsto> (''x7Kp2Q'', t1 + Minute * 16 + Minute * 15)]"
    by (simp add: world_sent_def)
  have m: "\<lparr>To = forget_Email forget_form, From = (SMTP_Account lib0, SMTP_Account lib0),
            Subject = subject_forget_pwd,
            Body = GetForgetPwdEmailHTML lib0 (Username alice) ''x7Kp2Q''\<rparr> = forget_msg"
    by (simp add: forget_msg_def forget_form_def lib0_def alice_def)
  have d: "\<not> fails ?e OpDialAndSend" "now ?e = t1 + Minute * 16" by (simp_all add: env_at_def)
  from C5_forget_pwd_after_expiry [OF reg up old, of lib0] old o c m d
  show ?thesis by (simp add: forget_form_def CreateRandomCode_env_at)
qed

text \<open>
  The claim that the new code differs from the previous one fails when the generator
  draws the same six characters again: the code issued at \<open>t1\<close> expires at
  \<open>t1 + 15 min\<close>, and the request at \<open>t1 + 16 min\<close> stores the same code.
\<close>

theorem C5_counterexample:
  "ForgetPwd lib0 (env_at t1) world0 (Inr forget_form) =
     (\<lparr>Code = Success, Msg = msg_send_ok, Data = nil\<rparr>, world_sent) \<and>
   cache world_sent ''a@x.com'' = Some (''x7Kp2Q'', t1 + Minute * 15) \<and>
   t1 + Minute * 15 < now (env_at (t1 + Minute * 16)) \<and>
   cache (snd (ForgetPwd lib0 (env_at (t1 + Minute * 16)) world_sent (Inr forget_form)))
     ''a@x.com'' = Some (''x7Kp2Q'', t1 + Minute * 16 + Minute * 15)"
proof -
  have a: "cache world_sent ''a@x.com'' = Some (''x7Kp2Q'', t1 + Minute * 15)"
    by (simp add: world_sent_def)
  have b: "t1 + Minute * 15 < now (env_at (t1 + Minute * 16))"
    by (simp add: env_at_def Minute_def Second_def)
  have c: "cache (snd (ForgetPwd lib0 (env_at (t1 + Minute * 16)) world_sent (Inr forget_form)))
     ''a@x.com'' = Some (''x7Kp2Q'', t1 + Minute * 16 + Minute * 15)"
    by (simp add: forget_defs CreateRandomCode_env_at world_sent_def forget_msg_def
        split: prod.split)
       (simp add: env_at_def world0_def alice_def lib0_def forget_form_def Minute_def Second_def)
  from first_request a b c show ?thesis by simp
qed

section \<open>Reset password\<close>




text \<open>
  C7. A password reset that succeeds leaves the cache as it was, the entry for the email
  included: it is neither deleted nor replaced. Hence a second request with the same
  email and the same code, whatever its new password, made while that entry has not
  expired, passes the test of line 304 again and succeeds as soon as its update of the
  user table does.
\<close>

theorem C7_reset_pwd_replay:
  assumes first: "ResetPwd lib env1 w (Inr f) = (r1, w1)" "Code r1 = Success"
    and entry: "cache w (reset_Email f) = Some (code, expiry)"
    and window: "now env1 \<le> now env2" "now env2 < expiry"
    and same: "reset_Email f2 = reset_Email f" "VerifyCode f2 = VerifyCode f"
    and up: "\<not> fails env2 OpUpdatePwd"
  shows "cache w1 = cache w \<and>
         ResetPwd lib env2 w1 (Inr f2) =
           (\<lparr>Code = Success, Msg = msg_reset_ok, Data = nil\<rparr>,
            snd (UpdatePwd lib env2 w1 (ResetPwdForm_BindToModel f2)))"
proof -
  from entry window have get1: "fst (Cache_Get env1 w (reset_Email f) []) = code"
    by (simp add: Cache_Get_def)
  have code: "VerifyCode f = code"
  proof (rule ccontr)
    assume "VerifyCode f \<noteq> code"
    with get1 first show False by (auto simp: ResetPwd_def Let_def)
  qed
  with get1 first have c: "cache w1 = cache w"
    by (auto simp: ResetPwd_def Let_def UpdatePwd_def server_error_def
        split: if_splits)
  with entry window have "fst (Cache_Get env2 w1 (reset_Email f2) []) = VerifyCode f2"
    by (simp add: Cache_Get_def same code)
  with up have "ResetPwd lib env2 w1 (Inr f2) =
           (\<lparr>Code = Success, Msg = msg_reset_ok, Data = nil\<rparr>,
            snd (UpdatePwd lib env2 w1 (ResetPwdForm_BindToModel f2)))"
    by (simp add: ResetPwd_def Let_def UpdatePwd_def)
  with c show ?thesis by simp
qed

text \<open>
  Alice resets her password at \<open>t1 + 1 min\<close>; the code is replayed at \<open>t1 + 10 min\<close>
  with another password, and that password is the one stored afterwards.
\<close>

theorem C7_witness:
  "ResetPwd lib0 (env_at (t1 + Minute)) world_sent (Inr reset_form) =
     (\<lparr>Code = Success, Msg = msg_reset_ok, Data = nil\<rparr>, world_reset) \<and>
   cache world_reset = cache world_sent \<and>
   fst (ResetPwd lib0 (env_at (t1 + Minute * 10)) world_reset
          (Inr (reset_form\<lparr>reset_Pwd := ''Intruder9''\<rparr>))) =
     \<lparr>Code = Success, Msg = msg_reset_ok, Data = nil\<rparr> \<and>
   map Pwd (users (snd (ResetPwd lib0 (env_at (t1 + Minute * 10)) world_reset
                          (Inr (reset_form\<lparr>reset_Pwd := ''Intruder9''\<rparr>))))) =
     [''#Intruder9'']"
proof -
  let ?e1 = "env_at (t1 + Minute)" and ?e2 = "env_at (t1 + Minute * 10)"
  let ?f2 = "reset_form\<lparr>reset_Pwd := ''Intruder9''\<rparr>"
  have s: "Code \<lparr>Code = Success, Msg = msg_reset_ok, Data = nil\<rparr> = Success" by simp
  have entry: "cache world_sent (reset_Email reset_form) = Some (''x7Kp2Q'', t1 + Minute * 15)"
    by (simp add: world_sent_def reset_form_def)
  have window: "now ?e1 \<le> now ?e2" "now ?e2 < t1 + Minute * 15"
    by (simp_all add: env_at_def Minute_def Second_def)
  have same: "reset_Email ?f2 = reset_Email reset_form" "VerifyCode ?f2 = VerifyCode reset_form"
    by simp_all
  have up: "\<not> fails ?e2 OpUpdatePwd" by (simp add: env_at_def)
  have p: "map Pwd (users (snd (UpdatePwd lib0 ?e2 world_reset (ResetPwdForm_BindToModel ?f2)))) =
             [''#Intruder9'']"
    by (simp add: UpdatePwd_def ResetPwdForm_BindToModel_def zero_User_def world_reset_def
        world_sent_def world0_def alice_def env_at_def lib0_def reset_form_def)
  from C7_reset_pwd_replay [OF first_reset s entry window same up] first_reset p
  show ?thesis by simp
qed

section \<open>Deleting friend links\<close>

text \<open>
  C9, as the code has it. \<open>DeleteById\<close> and \<open>MultiDelByIds\<close> delete permanently: both
  chains call \<^verbatim>\<open>Unscoped()\<close> before \<^verbatim>\<open>Delete\<close>. When the statement runs, the rows whose
  id matches (for the list: matches one of the pieces of \<^verbatim>\<open>strings.Split(ids, ",")\<close>) are
  removed from the table, also those that already carry a deletion marker; the rows that
  remain are rows of before, unchanged, so no deletion marker is written; and a later
  \<open>GetById\<close> for the id finds no record.
\<close>

theorem C9_link_delete_is_permanent:
  assumes "\<not> fails env OpLinkDelete"
  shows "fst (DeleteById lib env w id') = None \<and>
         set (links (snd (DeleteById lib env w id'))) =
           {l \<in> set (links w). \<not> SqlIdEq lib (ID l) id'} \<and>
         GetById lib env' (snd (DeleteById lib env w id')) id' =
           (zero_Link, Some (if fails env' OpLinkQuery then ErrDb else ErrRecordNotFound)) \<and>
         fst (MultiDelByIds lib env w ids) = None \<and>
         set (links (snd (MultiDelByIds lib env w ids))) =
           {l \<in> set (links w). \<not> (\<exists>s \<in> set (Split ids (CHR '','')). SqlIdEq lib (ID l) s)}"
proof -
  have "find (\<lambda>l. DeletedAt l = None \<and> SqlIdEq lib (ID l) id')
          (filter (\<lambda>l. \<not> SqlIdEq lib (ID l) id') (links w)) = None"
    by (auto simp: find_None_iff)
  with assms show ?thesis
    by (auto simp: DeleteById_def MultiDelByIds_def GetById_def Let_def list_ex_iff)
qed

theorem C9_witness:
  "\<not> fails env0 OpLinkDelete \<and>
   DeleteById lib0 env0 world_link ''1'' = (None, world_empty) \<and>
   GetById lib0 env0 world_link ''1'' = (link1, None) \<and>
   GetById lib0 env0 (snd (DeleteById lib0 env0 world_link ''1'')) ''1'' =
     (zero_Link, Some ErrRecordNotFound) \<and>
   set (links (snd (MultiDelByIds lib0 env0 world_link ''7,1''))) = {}"
proof -
  have h: "\<not> fails env0 OpLinkDelete" "\<not> fails env0 OpLinkQuery" by (simp_all add: env0_def)
  have d: "DeleteById lib0 env0 world_link ''1'' = (None, world_empty)"
    by (simp add: DeleteById_def world_link_def world_empty_def link1_def lib0_def env0_def)
  have g: "GetById lib0 env0 world_link ''1'' = (link1, None)"
    by (simp add: GetById_def world_link_def world_empty_def link1_def lib0_def env0_def)
  have m: "{l \<in> set (links world_link).
             \<not> (\<exists>s \<in> set (Split ''7,1'' (CHR '','')). SqlIdEq lib0 (ID l) s)} = {}"
    by (simp add: world_link_def world_empty_def link1_def lib0_def)
  from C9_link_delete_is_permanent [OF h(1), of lib0 world_link "''1''" env0 "''7,1''"] h d g m
  show ?thesis by simp
qed

text \<open>
  The claim of a soft delete fails on a table with the one link 1: after either deletion
  the table is empty, whereas the deletion by marker that the specification describes
  would keep the row with \<open>DeletedAt\<close> set.
\<close>

theorem C9_counterexample:
  "links world_link = [link1] \<and>
   links (snd (DeleteById lib0 env0 world_link ''1'')) = [] \<and>
   links (snd (MultiDelByIds lib0 env0 world_link ''1'')) = [] \<and>
   links (snd (spec_SoftDeleteById lib0 env0 world_link ''1'')) =
     [link1\<lparr>DeletedAt := Some (now env0)\<rparr>]"
  by (simp add: DeleteById_def MultiDelByIds_def spec_SoftDeleteById_def world_link_def
      world_empty_def link1_def lib0_def env0_def)

end
